theory Spec2Isabelle
  imports Main
begin

unbundle bit_operations_syntax

section \<open>Bitboard chess position and FEN codec (board.py)\<close>

text \<open>
  A shallow embedding of \<^verbatim>\<open>board.py\<close>. The members of an \<^verbatim>\<open>IntEnum\<close> are the ordinals
  \<open>0, 1, \<dots>\<close> and are modelled as \<open>nat\<close>, as is the file cursor of the parser, which only
  grows from 0; flag values (bitboards, castling ability, move flags) and the clocks are
  Python integers, modelled as \<open>int\<close>. A Python \<^verbatim>\<open>str\<close> is modelled as a
  \<open>string\<close> in which each \<open>char\<close> stands for the code point of the same number, so the
  model covers the texts whose code points are below 256. Every exception the code can
  raise is a value of \<open>error\<close>, and a function that can raise returns \<open>error + 'a\<close>.
\<close>

subsection \<open>Exceptions\<close>

text \<open>
  \<open>InvalidFEN\<close>, \<open>InvalidLiteral\<close> and \<open>NotAValid\<close> are all \<^verbatim>\<open>ValueError\<close> in Python; they
  differ in where they are raised and in their message: \<open>InvalidFEN fen\<close> is
  \<^verbatim>\<open>ValueError(f'Invalid FEN: {fen}')\<close> of \<^verbatim>\<open>Board.__init__\<close>, \<open>InvalidLiteral s\<close> is raised
  by \<^verbatim>\<open>int(s)\<close>, and \<open>NotAValid cls v\<close> by calling an enumeration class on a value that
  none of its members has. \<open>AttributeError n\<close> is a failed lookup of the attribute \<open>n\<close>.
  \<open>ForeignObject n\<close> stands for using as a piece or as a castling flag the object bound
  to the class attribute \<open>n\<close> that is not a member; it is never returned, since these
  lookups are of one character and no such attribute has a name of one character.
\<close>

datatype error =
    InvalidFEN string
  | InvalidLiteral string
  | NotAValid string nat
  | AttributeError string
  | IndexError
  | TypeError
  | ForeignObject string

definition bind :: "error + 'a \<Rightarrow> ('a \<Rightarrow> error + 'b) \<Rightarrow> error + 'b" where
  "bind m f = (case m of Inl e \<Rightarrow> Inl e | Inr x \<Rightarrow> f x)"

subsection \<open>Strings and integers\<close>

text \<open>\<^verbatim>\<open>str.isspace\<close>, \<^verbatim>\<open>str.isdigit\<close> and \<^verbatim>\<open>str.isdecimal\<close> on the code points below 256.
  The superscript digits (178, 179, 185) are digits for \<^verbatim>\<open>isdigit\<close> but not decimal.\<close>

definition isspace :: "char \<Rightarrow> bool" where
  "isspace c = (of_char c \<in> {9, 10, 11, 12, 13, 28, 29, 30, 31, 32, 133, 160 :: nat})"

definition isdecimal :: "char \<Rightarrow> bool" where
  "isdecimal c = (48 \<le> (of_char c :: nat) \<and> (of_char c :: nat) \<le> 57)"

definition isdigit :: "char \<Rightarrow> bool" where
  "isdigit c = (isdecimal c \<or> of_char c \<in> {178, 179, 185 :: nat})"

text \<open>\<^verbatim>\<open>s.split()\<close>: the maximal runs of characters that are not whitespace.\<close>

fun split_acc :: "string \<Rightarrow> string \<Rightarrow> string list" where
  "split_acc w [] = (if w = [] then [] else [w])"
| "split_acc w (c # cs) =
     (if isspace c then (if w = [] then split_acc [] cs else w # split_acc [] cs)
      else split_acc (w @ [c]) cs)"

definition str_split :: "string \<Rightarrow> string list" where
  "str_split s = split_acc [] s"

text \<open>\<^verbatim>\<open>s.split(sep)\<close> for a one-character separator: empty pieces are kept.\<close>

fun split_on_acc :: "char \<Rightarrow> string \<Rightarrow> string \<Rightarrow> string list" where
  "split_on_acc sep w [] = [w]"
| "split_on_acc sep w (c # cs) =
     (if c = sep then w # split_on_acc sep [] cs else split_on_acc sep (w @ [c]) cs)"

definition str_split_on :: "char \<Rightarrow> string \<Rightarrow> string list" where
  "str_split_on sep s = split_on_acc sep [] s"

text \<open>\<^verbatim>\<open>sep.join(xs)\<close>.\<close>

fun join :: "string \<Rightarrow> string list \<Rightarrow> string" where
  "join sep [] = []"
| "join sep [x] = x"
| "join sep (x # y # ys) = x @ sep @ join sep (y # ys)"

text \<open>\<^verbatim>\<open>s.replace(old, new)\<close>: the occurrences of \<open>old\<close> are found from the left and do
  not overlap; an empty \<open>old\<close> matches before every character and at the end.\<close>

function replace :: "string \<Rightarrow> string \<Rightarrow> string \<Rightarrow> string" where
  "replace old new [] = (if old = [] then new else [])"
| "replace old new (c # cs) =
     (if old = [] then new @ c # replace old new cs
      else if take (length old) (c # cs) = old
      then new @ replace old new (drop (length old) (c # cs))
      else c # replace old new cs)"
  by pat_completeness auto
termination
  by (relation "measure (\<lambda>(old, new, s). length s)") auto

text \<open>\<^verbatim>\<open>str(i)\<close> for an integer.\<close>

definition digit_char :: "nat \<Rightarrow> char" where
  "digit_char d = char_of (48 + d)"

fun str_nat :: "nat \<Rightarrow> string" where
  "str_nat n = (if n < 10 then [digit_char n] else str_nat (n div 10) @ [digit_char (n mod 10)])"

declare str_nat.simps [simp del]

definition py_str :: "int \<Rightarrow> string" where
  "py_str i = (if i < 0 then CHR ''-'' # str_nat (nat (- i)) else str_nat (nat i))"

text \<open>
  \<^verbatim>\<open>int(s)\<close> in base 10: whitespace around the literal is dropped, one sign is allowed,
  and the rest is decimal digits with single underscores between digits. The whitespace
  that \<^verbatim>\<open>int\<close> drops is not all that \<^verbatim>\<open>split\<close> separates at: the separators 28 to 31
  are left in place and make the literal invalid. (The interpreter's limit on the number
  of digits, 4300 unless reconfigured, is not modelled.)
\<close>

definition int_space :: "char \<Rightarrow> bool" where
  "int_space c = (of_char c \<in> {9, 10, 11, 12, 13, 32, 133, 160 :: nat})"

fun int_body :: "string \<Rightarrow> bool" where
  "int_body [] = False"
| "int_body [c] = isdecimal c"
| "int_body (c # d # cs) =
     (isdecimal c \<and> (if d = CHR ''_'' then int_body cs else int_body (d # cs)))"

definition digit_val :: "char \<Rightarrow> nat" where
  "digit_val c = of_char c - 48"

definition int_value :: "string \<Rightarrow> nat" where
  "int_value s = foldl (\<lambda>acc c. if c = CHR ''_'' then acc else 10 * acc + digit_val c) 0 s"

definition strip :: "string \<Rightarrow> string" where
  "strip s = rev (dropWhile int_space (rev (dropWhile int_space s)))"

definition py_int :: "string \<Rightarrow> error + int" where
  "py_int s =
     (let t = strip s;
          neg = (t \<noteq> [] \<and> hd t = CHR ''-'');
          body = (if t \<noteq> [] \<and> (hd t = CHR ''-'' \<or> hd t = CHR ''+'') then tl t else t)
      in if int_body body
         then Inr (if neg then - int (int_value body) else int (int_value body))
         else Inl (InvalidLiteral s))"

subsection \<open>Enumerations\<close>

text \<open>
  An \<^verbatim>\<open>IntEnum\<close> or \<^verbatim>\<open>IntFlag\<close> class is its name, its members in declaration order
  with their values, and the names of its other attributes. A member is the integer
  that is its value.
\<close>

record 'v enum_class =
  cls_name :: string
  members :: "(string \<times> 'v) list"
  attrs :: "string list"

text \<open>
  \<^verbatim>\<open>getattr(cls, name)\<close> finds a member, or any other attribute that the class has or
  inherits, and raises \<^verbatim>\<open>AttributeError\<close> otherwise. \<open>int_enum_attrs\<close> lists the names other
  than members that resolve on every \<^verbatim>\<open>IntEnum\<close> class (inherited from \<^verbatim>\<open>int\<close>,
  \<^verbatim>\<open>Enum\<close> and the metaclass) in CPython 3.11, the first version on which iterating
  a flag value, which \<^verbatim>\<open>to_fen\<close> needs, works; an \<^verbatim>\<open>IntFlag\<close> class has ten more.
\<close>

datatype 'v looked_up = Value 'v | Foreign string

definition int_enum_attrs :: "string list" where
  "int_enum_attrs = [
    ''__abs__'', ''__add__'', ''__and__'', ''__annotations__'', ''__base__'', ''__bases__'',
    ''__basicsize__'', ''__bool__'', ''__call__'', ''__ceil__'', ''__class__'',
    ''__contains__'', ''__copy__'', ''__deepcopy__'', ''__delattr__'', ''__dict__'',
    ''__dictoffset__'', ''__dir__'', ''__divmod__'', ''__doc__'', ''__eq__'', ''__flags__'',
    ''__float__'', ''__floor__'', ''__floordiv__'', ''__format__'', ''__ge__'',
    ''__getattr__'', ''__getattribute__'', ''__getitem__'', ''__getnewargs__'',
    ''__getstate__'', ''__gt__'', ''__hash__'', ''__index__'', ''__init__'',
    ''__init_subclass__'', ''__instancecheck__'', ''__int__'', ''__invert__'',
    ''__itemsize__'', ''__iter__'', ''__le__'', ''__len__'', ''__lshift__'', ''__lt__'',
    ''__members__'', ''__mod__'', ''__module__'', ''__mro__'', ''__mul__'', ''__name__'',
    ''__ne__'', ''__neg__'', ''__new__'', ''__or__'', ''__pos__'', ''__pow__'',
    ''__prepare__'', ''__qualname__'', ''__radd__'', ''__rand__'', ''__rdivmod__'',
    ''__reduce__'', ''__reduce_ex__'', ''__repr__'', ''__reversed__'', ''__rfloordiv__'',
    ''__rlshift__'', ''__rmod__'', ''__rmul__'', ''__ror__'', ''__round__'', ''__rpow__'',
    ''__rrshift__'', ''__rshift__'', ''__rsub__'', ''__rtruediv__'', ''__rxor__'',
    ''__setattr__'', ''__sizeof__'', ''__str__'', ''__sub__'', ''__subclasscheck__'',
    ''__subclasses__'', ''__subclasshook__'', ''__text_signature__'', ''__truediv__'',
    ''__trunc__'', ''__weakref__'', ''__weakrefoffset__'', ''__xor__'',
    ''_check_for_existing_members_'', ''_convert_'', ''_create_'', ''_find_data_repr_'',
    ''_find_data_type_'', ''_find_new_'', ''_generate_next_value_'', ''_get_mixins_'',
    ''_member_map_'', ''_member_names_'', ''_member_type_'', ''_missing_'',
    ''_new_member_'', ''_unhashable_values_'', ''_use_args_'', ''_value2member_map_'',
    ''_value_repr_'', ''as_integer_ratio'', ''bit_count'', ''bit_length'', ''conjugate'',
    ''denominator'', ''from_bytes'', ''imag'', ''mro'', ''numerator'', ''real'',
    ''to_bytes'']"

definition int_flag_attrs :: "string list" where
  "int_flag_attrs = int_enum_attrs @ [
    ''_all_bits_'', ''_boundary_'', ''_flag_mask_'', ''_get_value'', ''_inverted_'',
    ''_iter_member_'', ''_iter_member_by_def_'', ''_iter_member_by_value_'',
    ''_numeric_repr_'', ''_singles_mask_'']"

definition getattr :: "'v enum_class \<Rightarrow> string \<Rightarrow> error + 'v looked_up" where
  "getattr cls n =
     (case map_of (members cls) n of
        Some v \<Rightarrow> Inr (Value v)
      | None \<Rightarrow> if n \<in> set (attrs cls) then Inr (Foreign n) else Inl (AttributeError n))"

text \<open>Calling an \<^verbatim>\<open>IntEnum\<close> class on a value: the member with that value, or \<^verbatim>\<open>ValueError\<close>.\<close>

definition enum_call :: "nat enum_class \<Rightarrow> nat \<Rightarrow> error + nat" where
  "enum_call cls v =
     (if v \<in> snd ` set (members cls) then Inr v else Inl (NotAValid (cls_name cls) v))"

text \<open>\<^verbatim>\<open>m.name\<close> for a member \<open>m\<close> of an \<^verbatim>\<open>IntEnum\<close>; a plain integer has no such attribute.\<close>

definition enum_name :: "'v enum_class \<Rightarrow> 'v \<Rightarrow> error + string" where
  "enum_name cls v =
     (case filter (\<lambda>(n, x). x = v) (members cls) of
        [] \<Rightarrow> Inl (AttributeError ''name'')
      | (n, x) # _ \<Rightarrow> Inr n)"

text \<open>\<^verbatim>\<open>for m in cls\<close>: the members in declaration order.\<close>

definition enum_iter :: "'v enum_class \<Rightarrow> 'v list" where
  "enum_iter cls = map snd (members cls)"

definition int_enum :: "string \<Rightarrow> string list \<Rightarrow> nat enum_class" where
  "int_enum nm names =
     \<lparr>cls_name = nm, members = zip names [0 ..< length names], attrs = int_enum_attrs\<rparr>"

definition square_names :: "string list" where
  "square_names = [
    ''a8'', ''b8'', ''c8'', ''d8'', ''e8'', ''f8'', ''g8'', ''h8'',
    ''a7'', ''b7'', ''c7'', ''d7'', ''e7'', ''f7'', ''g7'', ''h7'',
    ''a6'', ''b6'', ''c6'', ''d6'', ''e6'', ''f6'', ''g6'', ''h6'',
    ''a5'', ''b5'', ''c5'', ''d5'', ''e5'', ''f5'', ''g5'', ''h5'',
    ''a4'', ''b4'', ''c4'', ''d4'', ''e4'', ''f4'', ''g4'', ''h4'',
    ''a3'', ''b3'', ''c3'', ''d3'', ''e3'', ''f3'', ''g3'', ''h3'',
    ''a2'', ''b2'', ''c2'', ''d2'', ''e2'', ''f2'', ''g2'', ''h2'',
    ''a1'', ''b1'', ''c1'', ''d1'', ''e1'', ''f1'', ''g1'', ''h1'']"

definition Square :: "nat enum_class" where
  "Square = int_enum ''Square'' square_names"

definition Bitboard :: "int enum_class" where
  "Bitboard = \<lparr>cls_name = ''Bitboard'',
               members = zip square_names (map (\<lambda>i. push_bit i 1) [0 ..< 64]),
               attrs = int_flag_attrs\<rparr>"

definition File :: "nat enum_class" where
  "File = int_enum ''File'' [''a'', ''b'', ''c'', ''d'', ''e'', ''f'', ''g'', ''h'']"

definition Rank :: "nat enum_class" where
  "Rank = int_enum ''Rank'' [''_8'', ''_7'', ''_6'', ''_5'', ''_4'', ''_3'', ''_2'', ''_1'']"

definition PieceType :: "nat enum_class" where
  "PieceType = int_enum ''PieceType'' [''p'', ''n'', ''b'', ''r'', ''q'', ''k'']"

definition Color :: "nat enum_class" where
  "Color = int_enum ''Color'' [''w'', ''b'']"

definition Piece :: "nat enum_class" where
  "Piece = int_enum ''Piece''
     [''P'', ''N'', ''B'', ''R'', ''Q'', ''K'', ''p'', ''n'', ''b'', ''r'', ''q'', ''k'']"

definition CastlingAbility :: "int enum_class" where
  "CastlingAbility = \<lparr>cls_name = ''CastlingAbility'',
                      members = [(''K'', 1), (''Q'', 2), (''k'', 4), (''q'', 8)],
                      attrs = int_flag_attrs\<rparr>"

subsection \<open>Addressing and pieces\<close>

definition square_from :: "nat \<Rightarrow> nat \<Rightarrow> error + nat" where
  "square_from file rank = enum_call Square (push_bit 3 rank OR file)"

definition file_of :: "nat \<Rightarrow> error + nat" where
  "file_of square = enum_call File (square AND 7)"

definition rank_of :: "nat \<Rightarrow> error + nat" where
  "rank_of square = enum_call Rank (drop_bit 3 square)"

definition piece_type_of :: "nat \<Rightarrow> error + nat" where
  "piece_type_of piece = enum_call PieceType (piece mod 6)"

definition color_of :: "nat \<Rightarrow> error + nat" where
  "color_of piece = enum_call Color (piece div 6)"

text \<open>\<^verbatim>\<open>Bitboard(1 << square)\<close>: an \<^verbatim>\<open>IntFlag\<close> class keeps any value it is called on.\<close>

definition bitboard_from :: "nat \<Rightarrow> int" where
  "bitboard_from square = push_bit square 1"

subsection \<open>Flag values\<close>

text \<open>\<^verbatim>\<open>m in f\<close> for flag values: every bit of \<open>m\<close> is set in \<open>f\<close>.\<close>

definition flag_in :: "int \<Rightarrow> int \<Rightarrow> bool" where
  "flag_in m f = (m AND f = m)"

text \<open>\<^verbatim>\<open>for m in f\<close>: the members of the class contained in \<open>f\<close>, by ascending value (the
  order in which both flag classes of the code declare their one-bit members), each
  with its name.\<close>

definition flag_iter :: "int enum_class \<Rightarrow> int \<Rightarrow> (string \<times> int) list" where
  "flag_iter cls f = filter (\<lambda>(n, m). flag_in m f) (members cls)"

text \<open>\<^verbatim>\<open>f.name\<close> for a flag value: the names of the members it contains joined by
  \<^verbatim>\<open>|\<close>, then the remaining bits as a number; \<^verbatim>\<open>None\<close> when it contains no member.\<close>

definition flag_name :: "int enum_class \<Rightarrow> int \<Rightarrow> string option" where
  "flag_name cls f =
     (let ms = flag_iter cls f;
          unknown = f XOR fold (OR) (map snd ms) 0
      in if ms = [] then None
         else Some (join ''|'' (map fst ms @ (if unknown = 0 then [] else [py_str unknown]))))"

text \<open>\<^verbatim>\<open>x.bit_length()\<close>: the number of binary digits of the absolute value.\<close>

function bit_length :: "int \<Rightarrow> nat" where
  "bit_length x = (if x = 0 then 0 else Suc (bit_length (\<bar>x\<bar> div 2)))"
  by pat_completeness auto
termination
  by (relation "measure (\<lambda>x. nat \<bar>x\<bar>)") auto

declare bit_length.simps [simp del]

subsection \<open>Move notation\<close>

definition en_passant :: int where
  "en_passant = 8"

definition promotion :: int where
  "promotion = 4"

definition special_1 :: int where
  "special_1 = 2"

definition special_0 :: int where
  "special_0 = 1"

record Move =
  from_square :: nat
  to_square :: nat
  flag :: int

definition Move_str :: "Move \<Rightarrow> error + string" where
  "Move_str m =
     bind (enum_name Square (from_square m)) (\<lambda>f.
     bind (enum_name Square (to_square m)) (\<lambda>t.
       let uci = f @ t in
       if flag_in promotion (flag m)
       then (let s0 = flag_in special_0 (flag m)
             in Inr (uci @ (if flag_in special_1 (flag m)
                            then (if s0 then ''q'' else ''r'')
                            else (if s0 then ''b'' else ''n''))))
       else Inr uci))"

subsection \<open>The board\<close>

record Bitboards =
  piece_type_bitboards :: "int list"
  color_bitboards :: "int list"

record Board = Bitboards +
  side_to_move :: "nat looked_up"
  castling_ability :: int
  en_passant_target_square :: "int looked_up"
  halfmove_clock :: int
  fullmove_counter :: int

text \<open>\<^verbatim>\<open>xs[i]\<close> for an index that is not negative.\<close>

definition index :: "'a list \<Rightarrow> nat \<Rightarrow> error + 'a" where
  "index xs i = (if i < length xs then Inr (xs ! i) else Inl IndexError)"

definition piece_bitboard :: "'a Bitboards_scheme \<Rightarrow> nat \<Rightarrow> error + int" where
  "piece_bitboard b piece =
     bind (color_of piece) (\<lambda>c.
     bind (index (color_bitboards b) c) (\<lambda>cb.
     bind (piece_type_of piece) (\<lambda>t.
     bind (index (piece_type_bitboards b) t) (\<lambda>tb.
       Inr (cb AND tb)))))"

definition place :: "'a Bitboards_scheme \<Rightarrow> nat \<Rightarrow> nat \<Rightarrow> error + 'a Bitboards_scheme" where
  "place b piece square =
     (let square_bitboard = bitboard_from square in
      bind (piece_type_of piece) (\<lambda>t.
      bind (index (piece_type_bitboards b) t) (\<lambda>tb.
        let b1 = b\<lparr>piece_type_bitboards := (piece_type_bitboards b)[t := tb OR square_bitboard]\<rparr> in
        bind (color_of piece) (\<lambda>c.
        bind (index (color_bitboards b1) c) (\<lambda>cb.
          Inr (b1\<lparr>color_bitboards := (color_bitboards b1)[c := cb OR square_bitboard]\<rparr>))))))"

subsection \<open>Parsing a FEN\<close>

text \<open>The inner loop of \<^verbatim>\<open>Board.__init__\<close>: one rank string, scanned with a file cursor.
  Every member of \<^verbatim>\<open>Piece\<close> has a one-character name and no other attribute of the
  class has, so the lookup of a character gives a member or fails.\<close>

fun place_rank :: "'a Bitboards_scheme \<Rightarrow> nat \<Rightarrow> nat \<Rightarrow> string \<Rightarrow> error + 'a Bitboards_scheme" where
  "place_rank b rank file [] = Inr b"
| "place_rank b rank file (ch # cs) =
     (if isdigit ch
      then bind (py_int [ch]) (\<lambda>d. place_rank b rank (file + nat d) cs)
      else bind (getattr Piece [ch]) (\<lambda>p.
             case p of
               Foreign n \<Rightarrow> Inl (ForeignObject n)
             | Value piece \<Rightarrow>
                 bind (square_from file rank) (\<lambda>square.
                 bind (place b piece square) (\<lambda>b'.
                   place_rank b' rank (file + 1) cs))))"

text \<open>The outer loop, over \<^verbatim>\<open>zip(Rank, piece_placement.split('/'))\<close>.\<close>

fun place_ranks :: "'a Bitboards_scheme \<Rightarrow> (nat \<times> string) list \<Rightarrow> error + 'a Bitboards_scheme" where
  "place_ranks b [] = Inr b"
| "place_ranks b ((rank, rank_placement) # rest) =
     bind (place_rank b rank 0 rank_placement) (\<lambda>b'. place_ranks b' rest)"

text \<open>The castling field: \<^verbatim>\<open>reduce(or_, map(partial(getattr, CastlingAbility), s))\<close>.
  The lookups are made one at a time as \<^verbatim>\<open>reduce\<close> asks for them.\<close>

definition castling_flag :: "char \<Rightarrow> error + int" where
  "castling_flag ch =
     bind (getattr CastlingAbility [ch]) (\<lambda>x.
       case x of Value v \<Rightarrow> Inr v | Foreign n \<Rightarrow> Inl (ForeignObject n))"

fun reduce_or :: "int \<Rightarrow> string \<Rightarrow> error + int" where
  "reduce_or acc [] = Inr acc"
| "reduce_or acc (ch # cs) = bind (castling_flag ch) (\<lambda>v. reduce_or (acc OR v) cs)"

definition parse_castling_ability :: "string \<Rightarrow> error + int" where
  "parse_castling_ability s =
     (if s = ''-'' then Inr 0
      else case s of
             [] \<Rightarrow> Inl TypeError
           | ch # cs \<Rightarrow> bind (castling_flag ch) (\<lambda>v. reduce_or v cs))"

definition parse_en_passant :: "string \<Rightarrow> error + int looked_up" where
  "parse_en_passant s = (if s = ''-'' then Inr (Value 0) else getattr Bitboard s)"

text \<open>The body of \<^verbatim>\<open>Board.__init__\<close> after the six fields have been unpacked.\<close>

definition Parse_fields ::
  "string \<Rightarrow> string \<Rightarrow> string \<Rightarrow> string \<Rightarrow> string \<Rightarrow> string \<Rightarrow> error + Board" where
  "Parse_fields piece_placement stm ca ep halfmove fullmove =
     bind (place_ranks
             \<lparr>piece_type_bitboards = replicate 6 0, color_bitboards = replicate 2 0\<rparr>
             (zip (enum_iter Rank) (str_split_on CHR ''/'' piece_placement))) (\<lambda>bbs.
     bind (getattr Color stm) (\<lambda>side.
     bind (parse_castling_ability ca) (\<lambda>castling.
     bind (parse_en_passant ep) (\<lambda>target.
     bind (py_int halfmove) (\<lambda>h.
     bind (py_int fullmove) (\<lambda>f.
       Inr \<lparr>piece_type_bitboards = piece_type_bitboards bbs,
            color_bitboards = color_bitboards bbs,
            side_to_move = side, castling_ability = castling,
            en_passant_target_square = target,
            halfmove_clock = h, fullmove_counter = f\<rparr>))))))"

text \<open>\<^verbatim>\<open>Board(fen)\<close>: the unpacking of \<^verbatim>\<open>fen.split()\<close> into six names raises
  \<^verbatim>\<open>ValueError\<close> for any other number of fields, which is raised again as the
  \<^verbatim>\<open>Invalid FEN\<close> error.\<close>

definition Parse :: "string \<Rightarrow> error + Board" where
  "Parse fen =
     (case str_split fen of
        [piece_placement, stm, ca, ep, halfmove, fullmove] \<Rightarrow>
          Parse_fields piece_placement stm ca ep halfmove fullmove
      | _ \<Rightarrow> Inl (InvalidFEN fen))"

subsection \<open>Serialising to FEN\<close>

text \<open>\<^verbatim>\<open>_str_board\<close>: the 64 cells, later pieces overwriting earlier ones. The loop runs
  over the members of \<^verbatim>\<open>Piece\<close>, whose name is always found.\<close>

fun str_board_loop :: "'a Bitboards_scheme \<Rightarrow> nat list \<Rightarrow> string list \<Rightarrow> error + string list" where
  "str_board_loop b [] board = Inr board"
| "str_board_loop b (piece # ps) board =
     bind (piece_bitboard b piece) (\<lambda>bb.
     bind (enum_name Piece piece) (\<lambda>name.
       str_board_loop b ps
         (fold (\<lambda>(n, square) brd. brd[bit_length square - 1 := name])
               (flag_iter Bitboard bb) board)))"

definition str_board :: "'a Bitboards_scheme \<Rightarrow> error + string" where
  "str_board b =
     bind (str_board_loop b (enum_iter Piece) (replicate 64 '' '')) (\<lambda>board. Inr (concat board))"

definition convert_spaces_to_digit :: "string \<Rightarrow> string" where
  "convert_spaces_to_digit s =
     fold (\<lambda>n s. replace (replicate n CHR '' '') (py_str (int n)) s) (rev [1 ..< 9]) s"

text \<open>\<^verbatim>\<open>s[i:j]\<close> for \<open>0 \<le> i \<le> j\<close>.\<close>

definition slice :: "'a list \<Rightarrow> nat \<Rightarrow> nat \<Rightarrow> 'a list" where
  "slice s i j = take (j - i) (drop i s)"

definition castling_ability_fen :: "int \<Rightarrow> error + string" where
  "castling_ability_fen ca =
     (if ca \<noteq> 0
      then (case map fst (flag_iter CastlingAbility ca) of
              [] \<Rightarrow> Inl TypeError
            | n # ns \<Rightarrow> Inr (fold (\<lambda>x acc. acc @ x) ns n))
      else Inr ''-'')"

text \<open>
  The last two fields of the tuple read \<^verbatim>\<open>.name\<close>, and for the en-passant target first
  the truth value, of what the parser stored. For an object that is not a member this is
  decided by the object: of the attributes of the two classes, those of \<open>falsy_attrs\<close>
  are bound to \<^verbatim>\<open>None\<close>, \<^verbatim>\<open>0\<close> or an empty container and count as false, and only
  \<^verbatim>\<open>_boundary_\<close> of a flag class, a member of another enumeration, has a \<^verbatim>\<open>name\<close>.
\<close>

definition falsy_attrs :: "string list" where
  "falsy_attrs = [''__annotations__'', ''__doc__'', ''__text_signature__'',
                  ''__weakrefoffset__'', ''_inverted_'', ''_unhashable_values_'']"

definition en_passant_fen :: "int looked_up \<Rightarrow> error + string" where
  "en_passant_fen x =
     (case x of
        Foreign n \<Rightarrow>
          if n \<in> set falsy_attrs then Inr ''-''
          else if n = ''_boundary_'' then Inr ''KEEP''
          else Inl (AttributeError ''name'')
      | Value v \<Rightarrow>
          if v \<noteq> 0
          then (case flag_name Bitboard v of None \<Rightarrow> Inl TypeError | Some n \<Rightarrow> Inr n)
          else Inr ''-'')"

definition side_to_move_fen :: "nat looked_up \<Rightarrow> error + string" where
  "side_to_move_fen x =
     (case x of Foreign n \<Rightarrow> Inl (AttributeError ''name'') | Value c \<Rightarrow> enum_name Color c)"

definition to_fen :: "Board \<Rightarrow> error + string" where
  "to_fen b =
     bind (str_board b) (\<lambda>board.
     bind (side_to_move_fen (side_to_move b)) (\<lambda>side.
     bind (castling_ability_fen (castling_ability b)) (\<lambda>castling.
     bind (en_passant_fen (en_passant_target_square b)) (\<lambda>target.
       Inr (join '' ''
              [join ''/'' (map (\<lambda>rank. convert_spaces_to_digit
                                         (slice board (push_bit 3 rank) (push_bit 3 (rank + 1))))
                              (enum_iter Rank)),
               side, castling, target,
               py_str (halfmove_clock b), py_str (fullmove_counter b)])))))"

subsection \<open>Notions used in the statements\<close>



text \<open>The flag value of a set of castling letters.\<close>

definition castling_value :: "char set \<Rightarrow> int" where
  "castling_value S =
     (if CHR ''K'' \<in> S then 1 else 0) OR (if CHR ''Q'' \<in> S then 2 else 0) OR
     (if CHR ''k'' \<in> S then 4 else 0) OR (if CHR ''q'' \<in> S then 8 else 0)"

section \<open>Properties\<close>

subsection \<open>Enumerations and bits\<close>

lemma int_enum_call:
  "enum_call (int_enum nm names) v = (if v < length names then Inr v else Inl (NotAValid nm v))"
  by (simp add: enum_call_def int_enum_def flip: set_map)

lemma zip_upt_filter:
  "filter (\<lambda>(n, x). x = v) (zip xs [0 ..< length xs]) = (if v < length xs then [(xs ! v, v)] else [])"
proof (induction xs rule: rev_induct)
  case Nil
  then show ?case by simp
next
  case (snoc x xs)
  then show ?case by (auto simp: nth_append)
qed

lemma int_enum_name:
  "enum_name (int_enum nm names) v =
     (if v < length names then Inr (names ! v) else Inl (AttributeError ''name''))"
  by (simp add: enum_name_def int_enum_def zip_upt_filter)

lemma length_square_names: "length square_names = 64"
  by (simp add: square_names_def)

lemma Square_call: "enum_call Square v = (if v < 64 then Inr v else Inl (NotAValid ''Square'' v))"
  by (simp add: Square_def int_enum_call length_square_names)

lemma File_call: "enum_call File v = (if v < 8 then Inr v else Inl (NotAValid ''File'' v))"
  by (simp add: File_def int_enum_call)

lemma Rank_call: "enum_call Rank v = (if v < 8 then Inr v else Inl (NotAValid ''Rank'' v))"
  by (simp add: Rank_def int_enum_call)

lemma PieceType_call:
  "enum_call PieceType v = (if v < 6 then Inr v else Inl (NotAValid ''PieceType'' v))"
  by (simp add: PieceType_def int_enum_call)

lemma Color_call: "enum_call Color v = (if v < 2 then Inr v else Inl (NotAValid ''Color'' v))"
  by (simp add: Color_def int_enum_call)

lemma Square_name:
  "enum_name Square v =
     (if v < 64 then Inr (square_names ! v) else Inl (AttributeError ''name''))"
  by (simp add: Square_def int_enum_name length_square_names)

lemma and_7_mod: "(s::nat) AND 7 = s mod 8"
proof -
  have "s AND 7 = take_bit 3 s"
    by (simp add: take_bit_eq_mask mask_eq_exp_minus_1)
  then show ?thesis
    by (simp add: take_bit_eq_mod)
qed

lemma shift_or_add:
  assumes "file < 8"
  shows "push_bit 3 rank OR file = rank * 8 + (file::nat)"
proof -
  have "take_bit 3 file = file"
    using assms by (simp add: take_bit_nat_eq_self)
  then have "push_bit 3 rank AND file = push_bit 3 rank AND take_bit 3 file"
    by simp
  also have "\<dots> = 0"
    by (simp add: bit_eq_iff bit_simps)
  finally have "push_bit 3 rank + file = push_bit 3 rank OR file"
    by (rule disjunctive_add_eq_or)
  then show ?thesis
    by (simp add: push_bit_eq_mult)
qed

lemma flag_in_exp: "flag_in (2 ^ n) f = bit f n"
proof -
  have "2 ^ n AND f = 2 ^ n \<longleftrightarrow> bit f n"
  proof
    assume "2 ^ n AND f = 2 ^ n"
    then have "bit (2 ^ n AND f) n"
      by (simp add: bit_exp_iff)
    then show "bit f n"
      by (simp add: bit_and_iff)
  next
    assume "bit f n"
    then show "2 ^ n AND f = 2 ^ n"
      by (intro bit_eqI) (auto simp: bit_and_iff bit_exp_iff)
  qed
  then show ?thesis
    by (simp add: flag_in_def)
qed

lemma flag_in_promotion: "flag_in promotion f = bit f 2"
  using flag_in_exp [of 2 f] by (simp add: promotion_def)

lemma flag_in_special_1: "flag_in special_1 f = bit f 1"
  using flag_in_exp [of 1 f] by (simp add: special_1_def)

lemma flag_in_special_0: "flag_in special_0 f = bit f 0"
  using flag_in_exp [of 0 f] by (simp add: special_0_def)


subsection \<open>Addressing\<close>

text \<open>
  C8. On every square \<open>s\<close> of \<open>0..63\<close> the three conversions return without raising:
  \<open>file_of s\<close> is \<open>s mod 8\<close>, \<open>rank_of s\<close> is \<open>s div 8\<close>, and \<open>square_from\<close> of these two
  gives \<open>s\<close> back; on every file and rank of \<open>0..7\<close>, \<open>square_from file rank\<close> is
  \<open>rank * 8 + file\<close>.
\<close>

theorem square_from_file_of_rank_of:
  assumes "s < 64"
  shows "file_of s = Inr (s mod 8) \<and> rank_of s = Inr (s div 8)
         \<and> bind (file_of s) (\<lambda>f. bind (rank_of s) (\<lambda>r. square_from f r)) = Inr s
         \<and> (\<forall>file < 8. \<forall>rank < 8. square_from file rank = Inr (rank * 8 + file))"
proof -
  have f: "file_of s = Inr (s mod 8)"
    by (simp add: file_of_def and_7_mod File_call)
  have r: "rank_of s = Inr (s div 8)"
    using assms by (simp add: rank_of_def drop_bit_eq_div Rank_call)
  have sq: "square_from fl rk = Inr (rk * 8 + fl)" if "fl < 8" "rk < 8" for fl rk
    using that by (simp add: square_from_def shift_or_add Square_call)
  have "square_from (s mod 8) (s div 8) = Inr s"
    using assms by (simp add: sq)
  then show ?thesis
    using f r sq by (simp add: bind_def)
qed

theorem square_from_file_of_rank_of_witness:
  "(52::nat) < 64 \<and> file_of 52 = Inr 4 \<and> rank_of 52 = Inr 6
   \<and> bind (file_of 52) (\<lambda>f. bind (rank_of 52) (\<lambda>r. square_from f r)) = Inr 52
   \<and> square_from 4 6 = Inr 52"
  using square_from_file_of_rank_of [of 52] by (simp add: bind_def)

subsection \<open>Move notation\<close>

text \<open>
  C7. A move between two squares renders as the name of the origin followed by the name
  of the destination, and then, only if the promotion bit (4) of the flag is set, one
  letter chosen by the bits special_1 (2) and special_0 (1): neither gives \<open>n\<close>, special_0
  alone \<open>b\<close>, special_1 alone \<open>r\<close>, both \<open>q\<close>. Two moves between the same squares whose
  flags agree on these three bits render alike. The three examples of the specification
  render as \<open>e2e4\<close>, \<open>e7e8q\<close> and \<open>e7e8r\<close>.
\<close>

theorem Move_str_render:
  assumes "from_square m < 64" and "to_square m < 64"
  shows "Move_str m =
           Inr (square_names ! from_square m @ square_names ! to_square m @
                (if \<not> bit (flag m) 2 then ''''
                 else if bit (flag m) 1 then (if bit (flag m) 0 then ''q'' else ''r'')
                 else (if bit (flag m) 0 then ''b'' else ''n'')))
         \<and> (\<forall>g. g AND 7 = flag m AND 7 \<longrightarrow> Move_str (m\<lparr>flag := g\<rparr>) = Move_str m)
         \<and> Move_str \<lparr>from_square = 52, to_square = 36, flag = 0\<rparr> = Inr ''e2e4''
         \<and> Move_str \<lparr>from_square = 12, to_square = 4,
                      flag = promotion OR special_1 OR special_0\<rparr> = Inr ''e7e8q''
         \<and> Move_str \<lparr>from_square = 12, to_square = 4, flag = promotion OR special_1\<rparr>
             = Inr ''e7e8r''"
proof -
  have render: "Move_str x =
           Inr (square_names ! from_square x @ square_names ! to_square x @
                (if \<not> bit (flag x) 2 then ''''
                 else if bit (flag x) 1 then (if bit (flag x) 0 then ''q'' else ''r'')
                 else (if bit (flag x) 0 then ''b'' else ''n'')))"
    if "from_square x < 64" "to_square x < 64" for x :: Move
    using that
    by (simp add: Move_str_def bind_def Square_name flag_in_promotion flag_in_special_1
        flag_in_special_0)
  have low: "bit g k = bit (flag m) k" if "g AND 7 = flag m AND 7" "k < 3" for g k
  proof -
    have "bit (g AND 7) k = bit (flag m AND 7) k"
      using that by simp
    moreover have "bit (7 :: int) k"
      using that(2) by (cases k rule: less_Suc_eq [THEN iffD1, elim_format]) (auto simp: numeral_eq_Suc bit_Suc bit_0 less_Suc_eq)
    ultimately show ?thesis
      by (simp add: bit_and_iff)
  qed
  have same: "Move_str (m\<lparr>flag := g\<rparr>) = Move_str m" if "g AND 7 = flag m AND 7" for g
    using assms low [OF that] by (simp add: render)
  have e1: "Move_str \<lparr>from_square = 52, to_square = 36, flag = 0\<rparr> = Inr ''e2e4''"
    by (simp add: render square_names_def)
  have e2: "Move_str \<lparr>from_square = 12, to_square = 4,
                      flag = promotion OR special_1 OR special_0\<rparr> = Inr ''e7e8q''"
    by (simp add: render square_names_def promotion_def special_1_def special_0_def)
  have e3: "Move_str \<lparr>from_square = 12, to_square = 4, flag = promotion OR special_1\<rparr>
             = Inr ''e7e8r''"
    by (simp add: render square_names_def promotion_def special_1_def)
  show ?thesis
    using render [OF assms] same e1 e2 e3 by blast
qed

theorem Move_str_render_witness:
  "Move_str \<lparr>from_square = 48, to_square = 56, flag = 13\<rparr> = Inr ''a2a1b''
   \<and> Move_str \<lparr>from_square = 48, to_square = 56, flag = 5\<rparr> = Inr ''a2a1b''"
  using Move_str_render [of "\<lparr>from_square = 48, to_square = 56, flag = 13\<rparr>"]
  by (simp add: square_names_def bit_numeral_simps)

subsection \<open>Placing a piece\<close>

lemma piece_div_mod_neq:
  fixes p q :: nat
  assumes "p \<noteq> q"
  shows "p div 6 \<noteq> q div 6 \<or> p mod 6 \<noteq> q mod 6"
  using assms by (metis div_mult_mod_eq)

text \<open>
  C2. Take a board with its six piece-type bitboards and two colour bitboards, none of
  which contains the square. After \<open>place piece square\<close>, which returns without raising,
  the bitboard of that piece contains the square and the bitboard of every other piece
  does not.
\<close>

theorem place_piece_bitboard:
  assumes "piece < 12" and "square < 64"
    and "length (piece_type_bitboards b) = 6" and "length (color_bitboards b) = 2"
    and "\<forall>bb \<in> set (piece_type_bitboards b) \<union> set (color_bitboards b). \<not> bit bb square"
  shows "\<exists>b'. place b piece square = Inr b'
           \<and> (\<exists>bb. piece_bitboard b' piece = Inr bb \<and> bit bb square)
           \<and> (\<forall>p2 < 12. p2 \<noteq> piece \<longrightarrow>
                 (\<exists>bb. piece_bitboard b' p2 = Inr bb \<and> \<not> bit bb square))"
proof -
  define t where "t = piece mod 6"
  define c where "c = piece div 6"
  define sb where "sb = bitboard_from square"
  define b' where "b' = b\<lparr>piece_type_bitboards := (piece_type_bitboards b)[t := piece_type_bitboards b ! t OR sb],
                          color_bitboards := (color_bitboards b)[c := color_bitboards b ! c OR sb]\<rparr>"
  have t: "t < 6" and c: "c < 2"
    using assms(1) by (simp_all add: t_def c_def)
  have sb: "bit sb square"
    by (simp add: sb_def bitboard_from_def bit_simps)
  have placed: "place b piece square = Inr b'"
    using t c assms(3,4)
    by (simp add: place_def piece_type_of_def color_of_def PieceType_call Color_call
        index_def bind_def Let_def b'_def t_def c_def sb_def)
  have pb: "piece_bitboard b' p = Inr (color_bitboards b' ! (p div 6) AND piece_type_bitboards b' ! (p mod 6))"
    if "p < 12" for p
  proof -
    have "p div 6 < 2" "p mod 6 < 6"
      using that by simp_all
    then show ?thesis
      using assms(3,4)
      by (simp add: piece_bitboard_def piece_type_of_def color_of_def PieceType_call Color_call
          index_def bind_def b'_def)
  qed
  have no_t: "\<not> bit (piece_type_bitboards b ! i) square" if "i < 6" for i
    using assms(3,5) that by (metis UnI1 nth_mem)
  have no_c: "\<not> bit (color_bitboards b ! i) square" if "i < 2" for i
    using assms(4,5) that by (metis UnI2 nth_mem)
  have own: "bit (color_bitboards b' ! c AND piece_type_bitboards b' ! t) square"
    using t c assms(3,4) sb by (simp add: b'_def bit_and_iff bit_or_iff)
  have other: "\<not> bit (color_bitboards b' ! (p2 div 6) AND piece_type_bitboards b' ! (p2 mod 6)) square"
    if "p2 < 12" "p2 \<noteq> piece" for p2
  proof -
    have "p2 div 6 < 2" "p2 mod 6 < 6"
      using that(1) by simp_all
    moreover have "p2 div 6 \<noteq> c \<or> p2 mod 6 \<noteq> t"
      using piece_div_mod_neq [OF that(2)] by (simp add: c_def t_def)
    ultimately show ?thesis
      using assms(3,4) no_t no_c
      by (auto simp: b'_def bit_and_iff nth_list_update)
  qed
  show ?thesis
    using placed pb own other assms(1) by (auto simp: t_def c_def)
qed

theorem place_piece_bitboard_witness:
  "(3::nat) < 12 \<and> (9::nat) < 64
   \<and> (\<exists>b'. place \<lparr>piece_type_bitboards = replicate 6 0, color_bitboards = replicate 2 0\<rparr> 3 9
               = Inr b'
          \<and> (\<exists>bb. piece_bitboard b' 3 = Inr bb \<and> bit bb 9)
          \<and> (\<forall>p2 < 12. p2 \<noteq> 3 \<longrightarrow> (\<exists>bb. piece_bitboard b' p2 = Inr bb \<and> \<not> bit bb 9)))"
  using place_piece_bitboard
    [of 3 9 "\<lparr>piece_type_bitboards = replicate 6 0, color_bitboards = replicate 2 0\<rparr>"]
  by simp

subsection \<open>Round trip of the initial position\<close>

text \<open>
  C1. Parsing the FEN of the standard initial position and serialising the board that
  results gives back exactly the same text.
\<close>

theorem to_fen_Parse_initial:
  "bind (Parse ''rnbqkbnr/pppppppp/8/8/8/8/PPPPPPPP/RNBQKBNR w KQkq - 0 1'') to_fen
     = Inr ''rnbqkbnr/pppppppp/8/8/8/8/PPPPPPPP/RNBQKBNR w KQkq - 0 1''"
  by code_simp

subsection \<open>Splitting into fields\<close>

lemma Parse_six:
  "str_split fen = [a, b, c, d, e, f] \<Longrightarrow> Parse fen = Parse_fields a b c d e f"
  by (simp add: Parse_def)

lemma Parse_not_six: "length (str_split fen) \<noteq> 6 \<Longrightarrow> Parse fen = Inl (InvalidFEN fen)"
  by (auto simp: Parse_def split: list.splits)

lemma length_six:
  assumes "length xs = 6"
  obtains a b c d e f where "xs = [a, b, c, d, e, f]"
proof -
  from assms show ?thesis
    by (auto simp: length_Suc_conv numeral_eq_Suc intro: that)
qed

lemma bind_Inl_iff: "bind m f = Inl e \<longleftrightarrow> m = Inl e \<or> (\<exists>x. m = Inr x \<and> f x = Inl e)"
  by (cases m) (simp_all add: bind_def)

lemma bind_Inr_iff: "bind m f = Inr y \<longleftrightarrow> (\<exists>x. m = Inr x \<and> f x = Inr y)"
  by (cases m) (simp_all add: bind_def)

lemma enum_call_not_InvalidFEN: "enum_call cls v \<noteq> Inl (InvalidFEN e)"
  by (simp add: enum_call_def)

lemma getattr_not_InvalidFEN: "getattr cls n \<noteq> Inl (InvalidFEN e)"
  by (simp add: getattr_def split: option.split)

lemma py_int_not_InvalidFEN: "py_int s \<noteq> Inl (InvalidFEN e)"
  by (simp add: py_int_def Let_def)

lemma place_not_InvalidFEN: "place b piece square \<noteq> Inl (InvalidFEN e)"
  by (simp add: place_def Let_def bind_Inl_iff piece_type_of_def color_of_def
      enum_call_not_InvalidFEN index_def)

lemma place_rank_not_InvalidFEN: "place_rank b rank cur s \<noteq> Inl (InvalidFEN e)"
proof (induction s arbitrary: b cur)
  case Nil
  then show ?case by simp
next
  case (Cons ch cs)
  then show ?case
    by (auto simp: bind_Inl_iff py_int_not_InvalidFEN getattr_not_InvalidFEN square_from_def
        enum_call_not_InvalidFEN place_not_InvalidFEN split: looked_up.splits)
qed

lemma place_ranks_not_InvalidFEN: "place_ranks b rs \<noteq> Inl (InvalidFEN e)"
proof (induction rs arbitrary: b)
  case Nil
  then show ?case by simp
next
  case (Cons r rs)
  then show ?case
    by (cases r) (simp add: bind_Inl_iff place_rank_not_InvalidFEN)
qed

lemma castling_flag_not_InvalidFEN: "castling_flag ch \<noteq> Inl (InvalidFEN e)"
  by (auto simp: castling_flag_def bind_Inl_iff getattr_not_InvalidFEN split: looked_up.splits)

lemma reduce_or_not_InvalidFEN: "reduce_or acc s \<noteq> Inl (InvalidFEN e)"
  by (induction s arbitrary: acc) (simp_all add: bind_Inl_iff castling_flag_not_InvalidFEN)

lemma parse_castling_ability_not_InvalidFEN: "parse_castling_ability s \<noteq> Inl (InvalidFEN e)"
  by (simp add: parse_castling_ability_def bind_Inl_iff castling_flag_not_InvalidFEN
      reduce_or_not_InvalidFEN split: list.split)

lemma Parse_fields_not_InvalidFEN: "Parse_fields a b c d h f \<noteq> Inl (InvalidFEN e)"
  by (simp add: Parse_fields_def bind_Inl_iff place_ranks_not_InvalidFEN getattr_not_InvalidFEN
      parse_castling_ability_not_InvalidFEN parse_en_passant_def py_int_not_InvalidFEN)

text \<open>
  C4. \<open>Parse\<close> fails with the Invalid-FEN error exactly when the text does not split
  into six whitespace-separated fields, and the error then carries the text; the initial
  position without its last field fails so.
\<close>

theorem Parse_InvalidFEN_iff:
  "((\<exists>e. Parse fen = Inl (InvalidFEN e)) \<longleftrightarrow> length (str_split fen) \<noteq> 6)
   \<and> (Parse fen = Inl (InvalidFEN fen) \<longleftrightarrow> length (str_split fen) \<noteq> 6)
   \<and> Parse ''rnbqkbnr/pppppppp/8/8/8/8/PPPPPPPP/RNBQKBNR w KQkq - 0''
       = Inl (InvalidFEN ''rnbqkbnr/pppppppp/8/8/8/8/PPPPPPPP/RNBQKBNR w KQkq - 0'')"
proof -
  have six: "Parse fen \<noteq> Inl (InvalidFEN e)" if "length (str_split fen) = 6" for e
  proof -
    from that obtain a b c d h f where "str_split fen = [a, b, c, d, h, f]"
      by (rule length_six)
    then show ?thesis
      by (simp add: Parse_six Parse_fields_not_InvalidFEN)
  qed
  have ex: "Parse ''rnbqkbnr/pppppppp/8/8/8/8/PPPPPPPP/RNBQKBNR w KQkq - 0''
       = Inl (InvalidFEN ''rnbqkbnr/pppppppp/8/8/8/8/PPPPPPPP/RNBQKBNR w KQkq - 0'')"
    by code_simp
  show ?thesis
    using six Parse_not_six [of fen] ex by blast
qed

theorem Parse_InvalidFEN_iff_witness:
  "Parse ''8/8/8/8/8/8/8/8 w - - 0 1 2'' = Inl (InvalidFEN ''8/8/8/8/8/8/8/8 w - - 0 1 2'')
   \<and> length (str_split ''8/8/8/8/8/8/8/8 w - - 0 1 2'') = 7"
proof -
  have "length (str_split ''8/8/8/8/8/8/8/8 w - - 0 1 2'') = 7"
    by code_simp
  then show ?thesis
    using Parse_InvalidFEN_iff [of "''8/8/8/8/8/8/8/8 w - - 0 1 2''"] by simp
qed

subsection \<open>The side to move\<close>

lemma getattr_Color:
  "getattr Color n =
     (if n = ''w'' then Inr (Value 0)
      else if n = ''b'' then Inr (Value 1)
      else if n \<in> set int_enum_attrs then Inr (Foreign n)
      else Inl (AttributeError n))"
  by (simp add: getattr_def Color_def int_enum_def)

text \<open>
  C5, as the code has it. \<open>w\<close> is read as white (0) and \<open>b\<close> as black (1). Any other
  value that is not the name of another attribute of the class \<^verbatim>\<open>Color\<close> makes the parse
  fail, with the \<^verbatim>\<open>AttributeError\<close> of that lookup when the piece placement before it
  was read without error. A value that names another attribute of the class is not
  rejected by the lookup: a parse that succeeds stores the object found.
\<close>

theorem Parse_side_to_move:
  assumes "str_split fen = [pp, stm, ca, ep, hm, fm]"
  shows "(\<forall>b. Parse fen = Inr b \<longrightarrow>
            side_to_move b = (if stm = ''w'' then Value 0
                              else if stm = ''b'' then Value 1 else Foreign stm)
            \<and> (stm = ''w'' \<or> stm = ''b'' \<or> stm \<in> set (attrs Color)))
         \<and> (stm \<noteq> ''w'' \<and> stm \<noteq> ''b'' \<and> stm \<notin> set (attrs Color) \<longrightarrow>
              (\<exists>e. Parse fen = Inl e)
              \<and> ((\<exists>bbs. place_ranks
                           \<lparr>piece_type_bitboards = replicate 6 0, color_bitboards = replicate 2 0\<rparr>
                           (zip (enum_iter Rank) (str_split_on CHR ''/'' pp)) = Inr bbs) \<longrightarrow>
                   Parse fen = Inl (AttributeError stm)))"
proof -
  have attrs: "attrs Color = int_enum_attrs"
    by (simp add: Color_def int_enum_def)
  have P: "Parse fen = Parse_fields pp stm ca ep hm fm"
    using assms by (rule Parse_six)
  have ok: "side_to_move b = (if stm = ''w'' then Value 0
                              else if stm = ''b'' then Value 1 else Foreign stm)
            \<and> (stm = ''w'' \<or> stm = ''b'' \<or> stm \<in> set (attrs Color))"
    if "Parse fen = Inr b" for b
    using that unfolding P Parse_fields_def attrs
    by (auto simp: bind_Inr_iff getattr_Color split: if_splits)
  have bad: "(\<exists>e. Parse fen = Inl e)
              \<and> ((\<exists>bbs. place_ranks
                           \<lparr>piece_type_bitboards = replicate 6 0, color_bitboards = replicate 2 0\<rparr>
                           (zip (enum_iter Rank) (str_split_on CHR ''/'' pp)) = Inr bbs) \<longrightarrow>
                   Parse fen = Inl (AttributeError stm))"
    if "stm \<noteq> ''w''" "stm \<noteq> ''b''" "stm \<notin> set (attrs Color)"
  proof -
    have g: "getattr Color stm = Inl (AttributeError stm)"
      using that by (simp add: getattr_Color attrs)
    have "Parse fen = Inl (AttributeError stm)"
      if "place_ranks \<lparr>piece_type_bitboards = replicate 6 0, color_bitboards = replicate 2 0\<rparr>
            (zip (enum_iter Rank) (str_split_on CHR ''/'' pp)) = Inr bbs" for bbs
      using that g by (simp add: P Parse_fields_def bind_def)
    moreover have "\<exists>e. Parse fen = Inl e"
    proof (cases "Parse fen")
      case (Inl e)
      then show ?thesis by blast
    next
      case (Inr b)
      from ok [OF this] that show ?thesis by simp
    qed
    ultimately show ?thesis by blast
  qed
  show ?thesis
    using ok bad by blast
qed

theorem Parse_side_to_move_witness:
  "Parse ''8/8/8/8/8/8/8/8 x - - 0 1'' = Inl (AttributeError ''x'')"
proof -
  have s: "str_split ''8/8/8/8/8/8/8/8 x - - 0 1'' = [''8/8/8/8/8/8/8/8'', ''x'', ''-'', ''-'', ''0'', ''1'']"
    by code_simp
  have a: "''x'' \<notin> set (attrs Color)"
    by code_simp
  have p: "place_ranks \<lparr>piece_type_bitboards = replicate 6 0, color_bitboards = replicate 2 0\<rparr>
             (zip (enum_iter Rank) (str_split_on CHR ''/'' ''8/8/8/8/8/8/8/8''))
           = Inr \<lparr>piece_type_bitboards = replicate 6 0, color_bitboards = replicate 2 0\<rparr>"
    by code_simp
  show ?thesis
    using Parse_side_to_move [OF s] a p by auto
qed

text \<open>
  C5, as the specification states it, fails: \<^verbatim>\<open>__doc__\<close> is neither \<open>w\<close> nor \<open>b\<close>, yet
  \<^verbatim>\<open>getattr(Color, '__doc__')\<close> finds the attribute of that name and the parse succeeds.
\<close>

theorem Parse_side_to_move_counterexample:
  "Parse ''8/8/8/8/8/8/8/8 __doc__ - - 0 1''
     = Inr \<lparr>piece_type_bitboards = [0, 0, 0, 0, 0, 0], color_bitboards = [0, 0],
            side_to_move = Foreign ''__doc__'', castling_ability = 0,
            en_passant_target_square = Value 0, halfmove_clock = 0, fullmove_counter = 1\<rparr>"
  by code_simp

subsection \<open>Whitespace between the fields\<close>








subsection \<open>Castling ability\<close>

lemma castling_flag_letters:
  "castling_flag CHR ''K'' = Inr 1" "castling_flag CHR ''Q'' = Inr 2"
  "castling_flag CHR ''k'' = Inr 4" "castling_flag CHR ''q'' = Inr 8"
  by (simp_all add: castling_flag_def getattr_def CastlingAbility_def bind_def)

lemma castling_value_insert:
  assumes "c \<in> set ''KQkq''"
  shows "\<exists>v. castling_flag c = Inr v \<and> v OR castling_value S = castling_value (insert c S)"
  using assms by (auto simp: castling_flag_letters castling_value_def)

lemma reduce_or_value:
  "set cs \<subseteq> set ''KQkq'' \<Longrightarrow> reduce_or acc cs = Inr (acc OR castling_value (set cs))"
proof (induction cs arbitrary: acc)
  case Nil
  then show ?case by (simp add: castling_value_def)
next
  case (Cons c cs)
  then have "c \<in> set ''KQkq''" and cs: "set cs \<subseteq> set ''KQkq''"
    by simp_all
  from castling_value_insert [OF this(1), of "set cs"]
  obtain v where v: "castling_flag c = Inr v"
    and ins: "v OR castling_value (set cs) = castling_value (insert c (set cs))"
    by blast
  show ?case
    using Cons.IH [OF cs, of "acc OR v"] v ins by (simp add: bind_def or.assoc)
qed

lemma parse_castling_ability_value:
  assumes "s \<noteq> []" and "set s \<subseteq> set ''KQkq''"
  shows "parse_castling_ability s = Inr (castling_value (set s))"
proof (cases s)
  case Nil
  with assms(1) show ?thesis by simp
next
  case (Cons c cs)
  with assms(2) have c: "c \<in> set ''KQkq''" and cs: "set cs \<subseteq> set ''KQkq''"
    by simp_all
  from castling_value_insert [OF c, of "set cs"]
  obtain v where v: "castling_flag c = Inr v"
    and ins: "v OR castling_value (set cs) = castling_value (insert c (set cs))"
    by blast
  have "c \<noteq> CHR ''-''"
    using c by auto
  then show ?thesis
    using Cons v ins reduce_or_value [OF cs, of v]
    by (simp add: parse_castling_ability_def bind_def)
qed

lemma castling_ability_fen_value:
  assumes "S \<subseteq> set ''KQkq''" and "S \<noteq> {}"
  shows "castling_ability_fen (castling_value S) = Inr (filter (\<lambda>c. c \<in> S) ''KQkq'')"
proof -
  have "CHR ''K'' \<in> S \<or> CHR ''Q'' \<in> S \<or> CHR ''k'' \<in> S \<or> CHR ''q'' \<in> S"
    using assms by auto
  then show ?thesis
    by (auto simp: castling_ability_fen_def castling_value_def flag_iter_def flag_in_def
        CastlingAbility_def)
qed

text \<open>
  C6. For castling fields made of the letters \<open>K\<close>, \<open>Q\<close>, \<open>k\<close>, \<open>q\<close>, the value parsed
  depends only on which letters occur, not on their order or number, and serialising it
  gives the letters that occur in the order \<open>K\<close>, \<open>Q\<close>, \<open>k\<close>, \<open>q\<close>. The field \<open>KQkq\<close> comes
  back as \<open>KQkq\<close> and \<open>-\<close> as \<open>-\<close>, also through a whole FEN.
\<close>

theorem castling_ability_roundtrip:
  assumes "s \<noteq> []" and "set s \<subseteq> set ''KQkq''" and "set t = set s"
  shows "parse_castling_ability t = parse_castling_ability s
         \<and> bind (parse_castling_ability s) castling_ability_fen
             = Inr (filter (\<lambda>c. c \<in> set s) ''KQkq'')
         \<and> bind (parse_castling_ability ''KQkq'') castling_ability_fen = Inr ''KQkq''
         \<and> bind (parse_castling_ability ''-'') castling_ability_fen = Inr ''-''
         \<and> bind (Parse ''4k3/8/8/8/8/8/8/4K3 b - - 12 40'') to_fen
             = Inr ''4k3/8/8/8/8/8/8/4K3 b - - 12 40''"
proof -
  have t: "t \<noteq> []" "set t \<subseteq> set ''KQkq''"
    using assms by auto
  have order: "parse_castling_ability t = parse_castling_ability s"
    using assms t by (simp add: parse_castling_ability_value)
  have "set s \<noteq> {}"
    using assms(1) by simp
  then have canon: "bind (parse_castling_ability s) castling_ability_fen
             = Inr (filter (\<lambda>c. c \<in> set s) ''KQkq'')"
    using assms(1,2) by (simp add: parse_castling_ability_value bind_def castling_ability_fen_value)
  have all: "bind (parse_castling_ability ''KQkq'') castling_ability_fen = Inr ''KQkq''"
    by code_simp
  have none: "bind (parse_castling_ability ''-'') castling_ability_fen = Inr ''-''"
    by code_simp
  have fen: "bind (Parse ''4k3/8/8/8/8/8/8/4K3 b - - 12 40'') to_fen
             = Inr ''4k3/8/8/8/8/8/8/4K3 b - - 12 40''"
    by code_simp
  show ?thesis
    using order canon all none fen by blast
qed

theorem castling_ability_roundtrip_witness:
  "parse_castling_ability ''qKqk'' = parse_castling_ability ''kqK''
   \<and> bind (parse_castling_ability ''kqK'') castling_ability_fen = Inr ''Kkq''"
  using castling_ability_roundtrip [of "''kqK''" "''qKqk''"]
  by auto

subsection \<open>Rank strings\<close>





















subsection \<open>Digits in a rank string\<close>






end
